theory Spec2Isabelle
  imports Complex_Main
begin

section \<open>Numbers and vectors\<close>

text \<open>
  The program is TypeScript; its numbers are IEEE doubles. They are modelled here as
  the real numbers, \<open>Math.PI\<close> as \<open>pi\<close>, \<open>Math.sin\<close> and \<open>Math.cos\<close> as \<open>sin\<close> and
  \<open>cos\<close>: every statement below is about the arithmetic the code writes down, without
  rounding. A \<open>THREE.Vector3\<close> is a triple of numbers.
\<close>

datatype Vector3 = Vector3 (vx: real) (vy: real) (vz: real)

text \<open>\<open>Vector3.distanceTo\<close>: the Euclidean distance of two points.\<close>

definition distanceTo :: "Vector3 \<Rightarrow> Vector3 \<Rightarrow> real" where
  "distanceTo p q = sqrt ((vx p - vx q)\<^sup>2 + (vy p - vy q)\<^sup>2 + (vz p - vz q)\<^sup>2)"

section \<open>The orbit camera controller (src/components/Experience.tsx)\<close>

text \<open>
  \<open>handPosition: { x: number; y: number; detected: boolean }\<close>. The fields \<open>x\<close> and
  \<open>y\<close> carry a prefix here, so that \<open>x\<close> and \<open>y\<close> stay free for variables.
\<close>

record HandPosition =
  hand_x :: real
  hand_y :: real
  detected :: bool

text \<open>
  The \<open>OrbitControls\<close> object behind \<open>controlsRef\<close>, as far as the frame callback uses
  it: the camera position \<open>controls.object.position\<close>, the look-at point
  \<open>controls.target\<close>, and the two angles of the spherical coordinates that the controls
  keep from their last \<open>update()\<close>, which \<open>getAzimuthalAngle()\<close> and \<open>getPolarAngle()\<close>
  return. \<open>getDistance()\<close> is the distance from the position to the target.
\<close>

record OrbitControls =
  azimuthalAngle :: real
  polarAngle :: real
  position :: Vector3
  target :: Vector3

definition getDistance :: "OrbitControls \<Rightarrow> real" where
  "getDistance controls = distanceTo (position controls) (target controls)"

definition targetAzimuth :: "real \<Rightarrow> real" where
  "targetAzimuth x = (x - 0.5) * pi * 3"

definition adjustedY :: "real \<Rightarrow> real" where
  "adjustedY y = (y - 0.2) * 2.0"

definition clampedY :: "real \<Rightarrow> real" where
  "clampedY y = max 0 (min 1 (adjustedY y))"

definition minPolar :: real where
  "minPolar = pi / 4"

definition maxPolar :: real where
  "maxPolar = pi / 1.8"

definition targetPolar :: "real \<Rightarrow> real" where
  "targetPolar y = minPolar + clampedY y * (maxPolar - minPolar)"

text \<open>
  \<open>let azimuthDiff = targetAzimuth - currentAzimuth\<close>, followed by the two \<open>if\<close>
  statements, in their order: each wraps once.
\<close>

definition azimuthDiff :: "real \<Rightarrow> real \<Rightarrow> real" where
  "azimuthDiff tgt currentAzimuth =
     (let d0 = tgt - currentAzimuth;
          d1 = (if d0 > pi then d0 - pi * 2 else d0);
          d2 = (if d1 < - pi then d1 + pi * 2 else d1)
      in d2)"

definition lerpSpeed :: real where
  "lerpSpeed = 8"

definition newAzimuth :: "real \<Rightarrow> real \<Rightarrow> real \<Rightarrow> real" where
  "newAzimuth currentAzimuth x delta =
     currentAzimuth + azimuthDiff (targetAzimuth x) currentAzimuth * delta * lerpSpeed"

definition newPolar :: "real \<Rightarrow> real \<Rightarrow> real \<Rightarrow> real" where
  "newPolar currentPolar y delta =
     currentPolar + (targetPolar y - currentPolar) * delta * lerpSpeed"

definition minDistance :: real where
  "minDistance = 8"

definition maxDistance :: real where
  "maxDistance = 30"

definition normalizedScale :: "real \<Rightarrow> real" where
  "normalizedScale handScale = max 0.3 (min 2.5 handScale)"

definition targetDistance :: "real \<Rightarrow> real" where
  "targetDistance handScale =
     maxDistance - (normalizedScale handScale - 0.3) / (2.5 - 0.3) * (maxDistance - minDistance)"

definition distanceLerpSpeed :: real where
  "distanceLerpSpeed = 5"

definition newDistance :: "real \<Rightarrow> real \<Rightarrow> real \<Rightarrow> real" where
  "newDistance currentDistance handScale delta =
     currentDistance + (targetDistance handScale - currentDistance) * delta * distanceLerpSpeed"

definition targetY :: real where
  "targetY = 4"

text \<open>The camera position rebuilt from the spherical coordinates (lines 85 to 87).\<close>

definition cameraPosition :: "real \<Rightarrow> real \<Rightarrow> real \<Rightarrow> Vector3" where
  "cameraPosition d p a =
     Vector3 (d * sin p * sin a) (targetY + d * cos p) (d * sin p * cos a)"

subsection \<open>\<open>controls.update()\<close>\<close>

text \<open>
  The callback ends with \<open>controls.update()\<close> (line 92). The method belongs to the
  three.js library, whose code is not part of the source; it is modelled here as the
  library has it, for controls with the props of lines 97 to 107 (\<open>minPolarAngle\<close>,
  \<open>maxPolarAngle\<close>, \<open>minDistance\<close>, \<open>maxDistance\<close>; no limit on the azimuth), a camera
  whose up axis is the \<open>y\<close> axis, and no pointer input, so that the damped rotation,
  the pan and the zoom that the pointer drives are all at rest. It reads the offset of
  the position from the target, turns it into spherical coordinates, clamps the polar
  angle and the radius, and writes the position back from the clamped coordinates.
\<close>

text \<open>
  \<open>Math.atan2(y, x)\<close> on real numbers: the angle of the point \<open>(x, y)\<close>, between \<open>- pi\<close>
  and \<open>pi\<close>.
\<close>

definition atan2 :: "real \<Rightarrow> real \<Rightarrow> real" where
  "atan2 y x =
     (if 0 < x then arctan (y / x)
      else if x < 0 then (if 0 \<le> y then arctan (y / x) + pi else arctan (y / x) - pi)
      else if 0 < y then pi / 2
      else if y < 0 then - (pi / 2)
      else 0)"

text \<open>
  \<open>Spherical.setFromCartesianCoords\<close>: the radius, the polar angle \<open>phi\<close> and the
  azimuth \<open>theta\<close> of a point, in this order.
\<close>

definition setFromCartesianCoords :: "real \<Rightarrow> real \<Rightarrow> real \<Rightarrow> real \<times> real \<times> real" where
  "setFromCartesianCoords x y z =
     (let radius = sqrt (x\<^sup>2 + y\<^sup>2 + z\<^sup>2) in
      if radius = 0 then (radius, 0, 0)
      else (radius, arccos (max (- 1) (min 1 (y / radius))), atan2 x z))"

definition EPS :: real where
  "EPS = 0.000001"

text \<open>\<open>Spherical.makeSafe\<close> keeps the polar angle away from the poles.\<close>

definition makeSafe :: "real \<Rightarrow> real" where
  "makeSafe ph = max EPS (min (pi - EPS) ph)"

text \<open>\<open>Vector3.setFromSpherical\<close>.\<close>

definition setFromSpherical :: "real \<Rightarrow> real \<Rightarrow> real \<Rightarrow> Vector3" where
  "setFromSpherical radius ph th =
     Vector3 (sin ph * radius * sin th) (cos ph * radius) (sin ph * radius * cos th)"

text \<open>The props \<open>minPolarAngle\<close> and \<open>maxPolarAngle\<close> (lines 100 and 101).\<close>

definition minPolarAngle :: real where
  "minPolarAngle = pi / 4"

definition maxPolarAngle :: real where
  "maxPolarAngle = pi / 1.8"

text \<open>
  The props \<open>minDistance = 8\<close> and \<open>maxDistance = 30\<close> (lines 102 and 103) have the
  names and the values of the two constants of the callback; \<open>minDistance\<close> and
  \<open>maxDistance\<close> stand for both.
\<close>

definition controls_update :: "OrbitControls \<Rightarrow> OrbitControls" where
  "controls_update controls =
     (let p = position controls;
          t = target controls;
          (radius, ph, th) = setFromCartesianCoords (vx p - vx t) (vy p - vy t) (vz p - vz t);
          ph' = makeSafe (max minPolarAngle (min maxPolarAngle ph));
          radius' = max minDistance (min maxDistance radius);
          offset = setFromSpherical radius' ph' th
      in controls\<lparr>azimuthalAngle := th, polarAngle := ph',
                   position := Vector3 (vx t + vx offset) (vy t + vy offset) (vz t + vz offset)\<rparr>)"

subsection \<open>The frame callback\<close>

text \<open>
  The callback passed to \<open>useFrame\<close>. \<open>controlsRef.current\<close> is \<open>null\<close> until the
  controls are mounted, hence the option; the body runs only when the controls exist and
  the hand is detected, and nothing is written otherwise. The body sets the position
  and the target and then calls \<open>controls.update()\<close>.
\<close>

definition Experience_useFrame ::
    "OrbitControls option \<Rightarrow> HandPosition \<Rightarrow> real \<Rightarrow> real \<Rightarrow> OrbitControls option" where
  "Experience_useFrame controlsRef handPosition handScale delta =
     (case controlsRef of
        None \<Rightarrow> None
      | Some controls \<Rightarrow>
          if detected handPosition then
            (let a = newAzimuth (azimuthalAngle controls) (hand_x handPosition) delta;
                 p = newPolar (polarAngle controls) (hand_y handPosition) delta;
                 d = newDistance (getDistance controls) handScale delta
             in Some (controls_update
                        (controls\<lparr>position := cameraPosition d p a,
                                   target := Vector3 0 targetY 0\<rparr>)))
          else Some controls)"

text \<open>The camera over a run of frames: one sample, scale and delta per frame.\<close>

fun cameraRun ::
    "OrbitControls option \<Rightarrow> (HandPosition \<times> real \<times> real) list \<Rightarrow> OrbitControls option" where
  "cameraRun c [] = c"
| "cameraRun c ((h, s, delta) # fs) = cameraRun (Experience_useFrame c h s delta) fs"

section \<open>The photo placards (src/components/Polaroids.tsx)\<close>

text \<open>\<open>TreeMode\<close> comes from \<open>../types\<close>; the code uses it as a two-valued enum.\<close>

datatype TreeMode = FORMED | CHAOS

text \<open>
  \<open>interface PhotoData\<close>. The field \<open>id\<close> is \<open>photo_id\<close> here (\<open>id\<close> is the identity
  function of HOL).
\<close>

record PhotoData =
  photo_id :: nat
  url :: string
  chaosPos :: Vector3
  targetPos :: Vector3
  speed :: real

subsection \<open>The placement generator: the \<open>useMemo\<close> of \<open>Polaroids\<close>\<close>

definition height :: real where
  "height = 9"

definition maxRadius :: real where
  "maxRadius = 5.0"

text \<open>\<open>i / count\<close> is a division of numbers, not of integers.\<close>

definition yNorm :: "nat \<Rightarrow> nat \<Rightarrow> real" where
  "yNorm i count = 0.2 + (real i / real count) * 0.6"

definition y_formed :: "nat \<Rightarrow> nat \<Rightarrow> real" where
  "y_formed i count = yNorm i count * height"

definition r_formed :: "nat \<Rightarrow> nat \<Rightarrow> real" where
  "r_formed i count = maxRadius * (1 - yNorm i count) + 0.8"

definition theta :: "nat \<Rightarrow> real" where
  "theta i = real i * 2.39996"

definition formedPos :: "nat \<Rightarrow> nat \<Rightarrow> Vector3" where
  "formedPos i count =
     Vector3 (r_formed i count * cos (theta i)) (y_formed i count)
             (r_formed i count * sin (theta i))"

definition relativeY :: real where
  "relativeY = 5"

definition relativeZ :: real where
  "relativeZ = 20"

definition angle :: "nat \<Rightarrow> nat \<Rightarrow> real" where
  "angle i count = (real i / real count) * pi * 2"

text \<open>
  \<open>Math.random()\<close> is modelled by the sequence \<open>rnd\<close> of the values its successive
  calls return. One pass of the loop body calls it three times, in this order: for
  \<open>distance\<close>, for \<open>heightSpread\<close> and for \<open>speed\<close>; so the pass for \<open>i\<close> reads
  \<open>rnd (3 * i)\<close>, \<open>rnd (3 * i + 1)\<close> and \<open>rnd (3 * i + 2)\<close>.
\<close>

definition distance_chaos :: "(nat \<Rightarrow> real) \<Rightarrow> nat \<Rightarrow> real" where
  "distance_chaos rnd i = 3 + rnd (3 * i) * 4"

definition heightSpread :: "(nat \<Rightarrow> real) \<Rightarrow> nat \<Rightarrow> real" where
  "heightSpread rnd i = (rnd (3 * i + 1) - 0.5) * 8"

definition scatteredPos :: "(nat \<Rightarrow> real) \<Rightarrow> nat \<Rightarrow> nat \<Rightarrow> Vector3" where
  "scatteredPos rnd i count =
     Vector3 (distance_chaos rnd i * cos (angle i count) * 1.2)
             (relativeY + heightSpread rnd i)
             (relativeZ - 4 + distance_chaos rnd i * sin (angle i count) * 0.5)"

text \<open>The record that the pass for \<open>i\<close> pushes (lines 222 to 228).\<close>

definition photoRecord :: "string list \<Rightarrow> (nat \<Rightarrow> real) \<Rightarrow> nat \<Rightarrow> PhotoData" where
  "photoRecord uploadedPhotos rnd i =
     (let count = length uploadedPhotos in
      \<lparr>photo_id = i,
       url = uploadedPhotos ! i,
       chaosPos = scatteredPos rnd i count,
       targetPos = formedPos i count,
       speed = 0.8 + rnd (3 * i + 2) * 1.5\<rparr>)"

text \<open>The \<open>for\<close> loop: \<open>data\<close> grows by one record per pass, while \<open>i < count\<close>.\<close>

function photoLoop ::
    "string list \<Rightarrow> (nat \<Rightarrow> real) \<Rightarrow> nat \<Rightarrow> PhotoData list \<Rightarrow> PhotoData list" where
  "photoLoop uploadedPhotos rnd i data =
     (if i < length uploadedPhotos
      then photoLoop uploadedPhotos rnd (Suc i) (data @ [photoRecord uploadedPhotos rnd i])
      else data)"
  by pat_completeness auto
termination
  by (relation "measure (\<lambda>(uploadedPhotos, rnd, i, data). length uploadedPhotos - i)") auto

declare photoLoop.simps [simp del]

definition photoData :: "string list \<Rightarrow> (nat \<Rightarrow> real) \<Rightarrow> PhotoData list" where
  "photoData uploadedPhotos rnd =
     (if length uploadedPhotos = 0 then [] else photoLoop uploadedPhotos rnd 0 [])"

subsection \<open>The frame callback of \<open>PolaroidItem\<close>\<close>

text \<open>
  The same clamp \<open>Math.max(0.3, Math.min(2.5, handScale))\<close> as in the camera
  controller, written a second time in this file: \<open>normalizedScale\<close> stands for both.
\<close>

definition minPhotoScale :: real where
  "minPhotoScale = 0.8"

definition maxPhotoScale :: real where
  "maxPhotoScale = 2.0"

definition photoScale :: "real \<Rightarrow> real" where
  "photoScale handScale =
     minPhotoScale
       + (normalizedScale handScale - 0.3) / (2.5 - 0.3) * (maxPhotoScale - minPhotoScale)"

text \<open>
  Modelled from the spec: \<open>Vector3.lerp\<close> of the three.js library, which the callback
  calls as \<open>position.lerp(targetPos, step)\<close> and whose code is not part of the source.
  The spec gives the step as \<open>position += (target - position) * delta * speed\<close>, in each
  coordinate, with no clamp of the factor.
\<close>

definition lerp :: "Vector3 \<Rightarrow> Vector3 \<Rightarrow> real \<Rightarrow> Vector3" where
  "lerp p v alpha =
     Vector3 (vx p + (vx v - vx p) * alpha)
             (vy p + (vy v - vy p) * alpha)
             (vz p + (vz v - vz p) * alpha)"

text \<open>
  The part of \<open>groupRef.current\<close> that the statements below are about: the position and the
  uniform scale of the placard. Its rotation (the billboard and the sway) is not
  modelled. \<open>groupRef.current\<close> is \<open>null\<close> before the group is mounted, and the callback
  returns at once then.
\<close>

record PolaroidGroup =
  group_position :: Vector3
  group_scale :: real

definition PolaroidItem_useFrame ::
    "PhotoData \<Rightarrow> TreeMode \<Rightarrow> real \<Rightarrow> real \<Rightarrow> PolaroidGroup option \<Rightarrow> PolaroidGroup option" where
  "PolaroidItem_useFrame data mode handScale delta groupRef =
     (case groupRef of
        None \<Rightarrow> None
      | Some g \<Rightarrow>
          (let isFormed = (mode = FORMED);
               tp = (if isFormed then targetPos data else chaosPos data);
               step = delta * speed data
           in Some (g\<lparr>group_position := lerp (group_position g) tp step,
                     group_scale := photoScale handScale\<rparr>)))"

text \<open>A placard over a run of frames with the mode and the scale held fixed.\<close>

fun placardRun ::
    "PhotoData \<Rightarrow> TreeMode \<Rightarrow> real \<Rightarrow> PolaroidGroup option \<Rightarrow> real list \<Rightarrow> PolaroidGroup option" where
  "placardRun data mode handScale g [] = g"
| "placardRun data mode handScale g (delta # ds) =
     placardRun data mode handScale (PolaroidItem_useFrame data mode handScale delta g) ds"

section \<open>Notions used in the statements\<close>


text \<open>
  Controls whose camera stands where \<open>App.tsx\<close> puts the canvas camera, at
  \<open>[0, 4, 20]\<close>, and looks at the tree centre \<open>(0, 4, 0)\<close>: azimuth \<open>0\<close>, polar angle
  \<open>pi / 2\<close>, distance \<open>20\<close>.
\<close>

definition startControls :: OrbitControls where
  "startControls =
     \<lparr>azimuthalAngle = 0, polarAngle = pi / 2,
      position = Vector3 0 4 20, target = Vector3 0 4 0\<rparr>"

text \<open>The position a placard moves toward in a mode (line 85).\<close>

definition selectedTarget :: "PhotoData \<Rightarrow> TreeMode \<Rightarrow> Vector3" where
  "selectedTarget data mode = (if mode = FORMED then targetPos data else chaosPos data)"

text \<open>
  The placard that the generator makes for a single photo when every call of
  \<open>Math.random()\<close> returns \<open>0.8\<close>: its formed position is \<open>(4.8, 1.8, 0)\<close> and its speed
  is \<open>0.8 + 0.8 * 1.5 = 2\<close>. \<open>sampleGroup s\<close> is its group at the signed distance \<open>s\<close> from
  the formed position along the first axis.
\<close>

definition samplePhoto :: PhotoData where
  "samplePhoto = photoData [''/photos/1.jpg''] (\<lambda>n. 4 / 5) ! 0"

definition sampleGroup :: "real \<Rightarrow> PolaroidGroup" where
  "sampleGroup s = \<lparr>group_position = Vector3 (4.8 + s) 1.8 0, group_scale = photoScale 1\<rparr>"

section \<open>Bounds on \<open>pi\<close>\<close>

text \<open>
  The cosine is within \<open>x^10 / 10!\<close> of its Taylor polynomial of degree eight. At
  \<open>1.5705\<close> the polynomial is above that margin and at \<open>1.571\<close> it is below minus that
  margin, so the first zero of the cosine, \<open>pi / 2\<close>, lies between the two.
\<close>

lemma cos_coeff_sum:
  fixes x :: real
  shows "(\<Sum>m<10. cos_coeff m * x ^ m) = 1 - x^2/2 + x^4/24 - x^6/720 + x^8/40320"
proof -
  have e: "{..<10::nat} = {0,1,2,3,4,5,6,7,8,9}" by auto
  have c: "cos_coeff 0 = 1" "cos_coeff (Suc 0) = 0" "cos_coeff 2 = -1/2" "cos_coeff 3 = 0"
     "cos_coeff 4 = 1/24" "cos_coeff 5 = 0" "cos_coeff 6 = -1/720" "cos_coeff 7 = 0"
     "cos_coeff 8 = 1/40320" "cos_coeff 9 = 0"
    by (simp_all add: cos_coeff_def fact_numeral)
  show ?thesis unfolding e by (simp add: c)
qed

lemma cos_poly_bound:
  fixes x :: real
  shows "\<bar>cos x - (1 - x^2/2 + x^4/24 - x^6/720 + x^8/40320)\<bar> \<le> \<bar>x\<bar>^10 / 3628800"
proof -
  obtain t where t: "cos x = (\<Sum>m<10. cos_coeff m * x ^ m) + cos (t + 1 / 2 * real (10::nat) * pi) / fact 10 * x ^ 10"
    using Maclaurin_cos_expansion [of x 10] by blast
  have "\<bar>cos (t + 1 / 2 * real (10::nat) * pi) / fact 10 * x ^ 10\<bar> \<le> 1 / fact 10 * \<bar>x\<bar> ^ 10"
    unfolding abs_mult abs_divide power_abs
    by (intro mult_right_mono) (simp_all add: divide_right_mono)
  also have "\<dots> = \<bar>x\<bar>^10 / 3628800" by (simp add: fact_numeral)
  finally show ?thesis using t cos_coeff_sum [of x] by simp
qed

lemma pi_lower: "3141 / 1000 < pi"
proof -
  define x :: real where "x = 3141 / 2000"
  have b: "\<bar>cos x - (1 - x^2/2 + x^4/24 - x^6/720 + x^8/40320)\<bar> \<le> \<bar>x\<bar>^10 / 3628800"
    by (rule cos_poly_bound)
  have n: "0 < (1 - x^2/2 + x^4/24 - x^6/720 + x^8/40320) - \<bar>x\<bar>^10 / 3628800"
    unfolding x_def by (simp add: power_divide)
  from b n have pos: "0 < cos x" by linarith
  show ?thesis
  proof (rule ccontr)
    assume "\<not> 3141 / 1000 < pi"
    then have le: "pi / 2 \<le> x" by (simp add: x_def)
    have "cos x \<le> cos (pi/2)"
      using le pi_ge_two by (intro cos_monotone_0_pi_le) (auto simp: x_def)
    with pos show False by simp
  qed
qed

lemma pi_upper: "pi < 3142 / 1000"
proof -
  define x :: real where "x = 1571 / 1000"
  have b: "\<bar>cos x - (1 - x^2/2 + x^4/24 - x^6/720 + x^8/40320)\<bar> \<le> \<bar>x\<bar>^10 / 3628800"
    by (rule cos_poly_bound)
  have n: "(1 - x^2/2 + x^4/24 - x^6/720 + x^8/40320) + \<bar>x\<bar>^10 / 3628800 < 0"
    unfolding x_def by (simp add: power_divide)
  from b n have neg: "cos x < 0" by linarith
  show ?thesis
  proof (rule ccontr)
    assume "\<not> pi < 3142 / 1000"
    then have le: "x \<le> pi / 2" by (simp add: x_def)
    have "0 \<le> cos x"
      using le by (intro cos_ge_zero) (auto simp: x_def)
    with neg show False by simp
  qed
qed

section \<open>The clamped targets\<close>

lemma normalizedScale_bounds: "0.3 \<le> normalizedScale s \<and> normalizedScale s \<le> 2.5"
  by (simp add: normalizedScale_def)

lemma normalizedScale_mono: "s1 \<le> s2 \<Longrightarrow> normalizedScale s1 \<le> normalizedScale s2"
  by (simp add: normalizedScale_def max_def min_def)

lemma normalizedScale_idem: "normalizedScale (normalizedScale s) = normalizedScale s"
  by (simp add: normalizedScale_def max_def min_def)

lemma clampedY_bounds: "0 \<le> clampedY y \<and> clampedY y \<le> 1"
  by (simp add: clampedY_def)

lemma polar_range: "minPolar \<le> maxPolar"
  using pi_gt_zero by (simp add: minPolar_def maxPolar_def field_simps)

lemma targetPolar_bounds: "minPolar \<le> targetPolar y \<and> targetPolar y \<le> maxPolar"
proof -
  have r: "0 \<le> maxPolar - minPolar" using polar_range by simp
  have c: "0 \<le> clampedY y" "clampedY y \<le> 1" using clampedY_bounds by auto
  have "clampedY y * (maxPolar - minPolar) \<le> 1 * (maxPolar - minPolar)"
    using c r by (intro mult_right_mono) auto
  moreover have "0 \<le> clampedY y * (maxPolar - minPolar)" using c r by simp
  ultimately show ?thesis by (simp add: targetPolar_def)
qed

lemma targetDistance_bounds: "minDistance \<le> targetDistance s \<and> targetDistance s \<le> maxDistance"
  using normalizedScale_bounds [of s]
  by (simp add: targetDistance_def minDistance_def maxDistance_def)


section \<open>The coupling of distance and scale\<close>

text \<open>
  C9. The target camera distance does not increase and the placard scale does not
  decrease when the hand scale grows: for \<open>s1 \<le> s2\<close> the distance for \<open>s2\<close> is at most
  the distance for \<open>s1\<close>, and the scale for \<open>s1\<close> is at most the scale for \<open>s2\<close>.
\<close>

theorem scale_coupling_monotone:
  "s1 \<le> s2 \<Longrightarrow> targetDistance s2 \<le> targetDistance s1 \<and> photoScale s1 \<le> photoScale s2"
  using normalizedScale_mono [of s1 s2]
  by (simp add: targetDistance_def photoScale_def minDistance_def maxDistance_def
      minPhotoScale_def maxPhotoScale_def)

theorem scale_coupling_monotone_witness:
  "(0.3::real) \<le> 2.5 \<and> targetDistance 2.5 \<le> targetDistance 0.3 \<and> photoScale 0.3 \<le> photoScale 2.5
   \<and> targetDistance 0.3 = 30 \<and> targetDistance 2.5 = 8"
  using scale_coupling_monotone [of "0.3" "2.5"]
  by (simp add: targetDistance_def minDistance_def maxDistance_def normalizedScale_def)

section \<open>What \<open>controls.update()\<close> leaves behind\<close>

text \<open>
  After an update the azimuth that the controls report lies between \<open>- pi\<close> and \<open>pi\<close>,
  the polar angle lies between the two polar props, and the distance from the position
  to the target is the clamped radius.
\<close>

lemma atan2_range: "- pi \<le> atan2 y x \<and> atan2 y x \<le> pi"
proof -
  have b: "- (pi / 2) < arctan (y / x)" "arctan (y / x) < pi / 2"
    by (rule arctan_lbound, rule arctan_ubound)
  consider "0 < x" | "x < 0" "0 \<le> y" | "x < 0" "y < 0" | "x = 0"
    by linarith
  then show ?thesis
  proof cases
    case 1
    then have "atan2 y x = arctan (y / x)" by (simp add: atan2_def)
    then show ?thesis using b pi_gt_zero by linarith
  next
    case 2
    then have "y / x \<le> 0" by (simp add: divide_nonneg_neg)
    then have "arctan (y / x) \<le> 0" by (simp add: arctan_le_zero_iff)
    moreover have "atan2 y x = arctan (y / x) + pi" using 2 by (simp add: atan2_def)
    ultimately show ?thesis using b by linarith
  next
    case 3
    then have "0 < y / x" by (simp add: divide_neg_neg)
    then have "0 < arctan (y / x)" by (simp add: zero_less_arctan_iff)
    moreover have "atan2 y x = arctan (y / x) - pi" using 3 by (simp add: atan2_def)
    ultimately show ?thesis using b by linarith
  next
    case 4
    consider "0 < y" | "y < 0" | "y = 0" by linarith
    then show ?thesis
    proof cases
      case 1
      then have "atan2 y x = pi / 2" using 4 by (simp add: atan2_def)
      then show ?thesis using pi_gt_zero by linarith
    next
      case 2
      then have "atan2 y x = - (pi / 2)" using 4 by (simp add: atan2_def)
      then show ?thesis using pi_gt_zero by linarith
    next
      case 3
      then have "atan2 y x = 0" using 4 by (simp add: atan2_def)
      then show ?thesis using pi_gt_zero by linarith
    qed
  qed
qed

lemma spherical_theta_range:
  "setFromCartesianCoords x y z = (r, ph, th) \<Longrightarrow> - pi \<le> th \<and> th \<le> pi"
  using atan2_range [of x z] pi_gt_zero
  by (auto simp: setFromCartesianCoords_def Let_def split: if_splits)


lemma spherical_square_sum:
  fixes a b c d r :: real
  shows "(a * r * b)\<^sup>2 + (c * r)\<^sup>2 + (a * r * d)\<^sup>2 = r\<^sup>2 * (a\<^sup>2 * (b\<^sup>2 + d\<^sup>2) + c\<^sup>2)"
  by (simp add: power2_eq_square algebra_simps)

lemma setFromSpherical_length:
  "0 \<le> r \<Longrightarrow>
     sqrt ((vx (setFromSpherical r ph th))\<^sup>2 + (vy (setFromSpherical r ph th))\<^sup>2
           + (vz (setFromSpherical r ph th))\<^sup>2) = r"
proof -
  assume r: "0 \<le> r"
  have "(sin ph * r * sin th)\<^sup>2 + (cos ph * r)\<^sup>2 + (sin ph * r * cos th)\<^sup>2
      = r\<^sup>2 * ((sin ph)\<^sup>2 * ((sin th)\<^sup>2 + (cos th)\<^sup>2) + (cos ph)\<^sup>2)"
    by (rule spherical_square_sum)
  also have "\<dots> = r\<^sup>2 * ((sin ph)\<^sup>2 * 1 + (cos ph)\<^sup>2)"
    by (simp only: sin_cos_squared_add)
  also have "\<dots> = r\<^sup>2" by (simp only: mult_1_right sin_cos_squared_add)
  finally show ?thesis using r by (simp add: setFromSpherical_def)
qed

lemma update_fields:
  obtains r ph th where
    "setFromCartesianCoords (vx (position c) - vx (target c)) (vy (position c) - vy (target c))
        (vz (position c) - vz (target c)) = (r, ph, th)"
    "azimuthalAngle (controls_update c) = th"
    "polarAngle (controls_update c) = makeSafe (max minPolarAngle (min maxPolarAngle ph))"
    "getDistance (controls_update c) = max minDistance (min maxDistance r)"
proof -
  obtain r ph th where s:
    "setFromCartesianCoords (vx (position c) - vx (target c)) (vy (position c) - vy (target c))
        (vz (position c) - vz (target c)) = (r, ph, th)"
    by (cases "setFromCartesianCoords (vx (position c) - vx (target c))
        (vy (position c) - vy (target c)) (vz (position c) - vz (target c))") auto
  have r': "0 \<le> max minDistance (min maxDistance r)" by (simp add: minDistance_def)
  have d: "getDistance (controls_update c) = max minDistance (min maxDistance r)"
    using setFromSpherical_length [OF r']
    by (simp add: getDistance_def controls_update_def Let_def s distanceTo_def)
  have a: "azimuthalAngle (controls_update c) = th"
    by (simp add: controls_update_def Let_def s)
  have p: "polarAngle (controls_update c) = makeSafe (max minPolarAngle (min maxPolarAngle ph))"
    by (simp add: controls_update_def Let_def s)
  show ?thesis by (rule that [OF s a p d])
qed

lemma update_azimuth_range:
  "- pi \<le> azimuthalAngle (controls_update c) \<and> azimuthalAngle (controls_update c) \<le> pi"
proof -
  obtain r ph th where
    "setFromCartesianCoords (vx (position c) - vx (target c)) (vy (position c) - vy (target c))
        (vz (position c) - vz (target c)) = (r, ph, th)"
    "azimuthalAngle (controls_update c) = th"
    by (rule update_fields)
  then show ?thesis using spherical_theta_range by simp
qed


section \<open>The frozen camera\<close>

text \<open>
  C1. In a frame whose gesture sample has \<open>detected = false\<close> the callback leaves the
  controls as they were: position, look-at target, azimuth, polar angle and distance
  are those of the frame before, whatever \<open>x\<close>, \<open>y\<close>, the scale and the delta are.
\<close>

theorem freeze_when_not_detected:
  "\<not> detected handPosition \<Longrightarrow>
     Experience_useFrame controlsRef handPosition handScale delta = controlsRef"
  by (simp add: Experience_useFrame_def split: option.split)

theorem freeze_when_not_detected_witness:
  "\<not> detected \<lparr>hand_x = 7, hand_y = -3, detected = False\<rparr> \<and>
   Experience_useFrame
     (Some \<lparr>azimuthalAngle = 1, polarAngle = 1,
            position = Vector3 1 2 3, target = Vector3 0 4 0\<rparr>)
     \<lparr>hand_x = 7, hand_y = -3, detected = False\<rparr> 9 (1/60)
   = Some \<lparr>azimuthalAngle = 1, polarAngle = 1,
            position = Vector3 1 2 3, target = Vector3 0 4 0\<rparr>"
  using freeze_when_not_detected
    [of "\<lparr>hand_x = 7, hand_y = -3, detected = False\<rparr>"
        "Some \<lparr>azimuthalAngle = 1, polarAngle = 1,
            position = Vector3 1 2 3, target = Vector3 0 4 0\<rparr>" 9 "1/60"]
  by simp

section \<open>Out-of-range inputs\<close>

lemma newPolar_clamp: "newPolar p (max 0.2 (min 0.7 y)) delta = newPolar p y delta"
proof -
  have "clampedY (max 0.2 (min 0.7 y)) = clampedY y"
    by (simp add: clampedY_def adjustedY_def max_def min_def)
  then show ?thesis by (simp only: newPolar_def targetPolar_def)
qed

lemma newDistance_clamp: "newDistance d (normalizedScale s) delta = newDistance d s delta"
  by (simp only: newDistance_def targetDistance_def normalizedScale_idem)

lemma frame_Some: "\<exists>c'. Experience_useFrame (Some c) h s delta = Some c'"
  by (cases "detected h") (simp_all add: Experience_useFrame_def Let_def)

text \<open>
  C2, as the code has it. The hand scale is clamped to \<open>[0.3, 2.5]\<close> and the remapped
  \<open>y\<close> to \<open>[0, 1]\<close> before use: a frame gives the same result for \<open>y\<close> and the scale as
  for \<open>y\<close> clamped to \<open>[0.2, 0.7]\<close> and the clamped scale. The update always produces a
  result. The component \<open>x\<close> is not clamped: the target azimuth is \<open>(x - 0.5) * 3 * pi\<close>
  for every \<open>x\<close>.
\<close>

theorem inputs_clamped_except_x:
  "0.3 \<le> normalizedScale handScale \<and> normalizedScale handScale \<le> 2.5
   \<and> 0 \<le> clampedY y \<and> clampedY y \<le> 1
   \<and> targetAzimuth x = (x - 1 / 2) * (3 * pi)
   \<and> (\<exists>c'. Experience_useFrame (Some c) \<lparr>hand_x = x, hand_y = y, detected = d\<rparr> handScale delta = Some c')
   \<and> Experience_useFrame (Some c) \<lparr>hand_x = x, hand_y = y, detected = d\<rparr> handScale delta
       = Experience_useFrame (Some c) \<lparr>hand_x = x, hand_y = max 0.2 (min 0.7 y), detected = d\<rparr>
           (normalizedScale handScale) delta"
proof -
  have "Experience_useFrame (Some c) \<lparr>hand_x = x, hand_y = y, detected = d\<rparr> handScale delta
       = Experience_useFrame (Some c) \<lparr>hand_x = x, hand_y = max 0.2 (min 0.7 y), detected = d\<rparr>
           (normalizedScale handScale) delta"
    unfolding Experience_useFrame_def
    by (simp only: HandPosition.simps option.case newPolar_clamp newDistance_clamp)
  moreover have "targetAzimuth x = (x - 1 / 2) * (3 * pi)"
    by (simp add: targetAzimuth_def)
  ultimately show ?thesis
    using normalizedScale_bounds [of handScale] clampedY_bounds [of y]
      frame_Some [of c "\<lparr>hand_x = x, hand_y = y, detected = d\<rparr>" handScale delta]
    by simp
qed

text \<open>
  For \<open>x = 2\<close> the target azimuth is \<open>4.5 * pi\<close>, while \<open>x\<close> clamped to \<open>[0, 1]\<close> would
  give \<open>1.5 * pi\<close>; from azimuth \<open>0\<close> with \<open>delta = 1/16\<close> the frame then turns the camera
  to \<open>1.25 * pi\<close> and not to \<open>- 0.25 * pi\<close>.
\<close>

theorem x_not_clamped_counterexample:
  "targetAzimuth 2 = 9 * pi / 2 \<and> targetAzimuth (max 0 (min 1 2)) = 3 * pi / 2
   \<and> newAzimuth 0 2 (1/16) = 5 * pi / 4
   \<and> newAzimuth 0 (max 0 (min 1 2)) (1/16) = - pi / 4
   \<and> newAzimuth 0 2 (1/16) \<noteq> newAzimuth 0 (max 0 (min 1 2)) (1/16)"
  using pi_gt_zero
  by (simp add: targetAzimuth_def newAzimuth_def azimuthDiff_def lerpSpeed_def Let_def)

section \<open>The wrapped azimuth difference\<close>

lemma targetAzimuth_range:
  assumes "0 \<le> x" "x \<le> 1"
  shows "- (3 * pi / 2) \<le> targetAzimuth x \<and> targetAzimuth x \<le> 3 * pi / 2"
proof -
  have "(x - 1 / 2) * (pi * 3) \<le> (1 / 2) * (pi * 3)"
    using assms pi_gt_zero by (intro mult_right_mono) auto
  moreover have "(- 1 / 2) * (pi * 3) \<le> (x - 1 / 2) * (pi * 3)"
    using assms pi_gt_zero by (intro mult_right_mono) auto
  moreover have "targetAzimuth x = (x - 1 / 2) * (pi * 3)"
    by (simp add: targetAzimuth_def)
  ultimately show ?thesis by linarith
qed

lemma azimuthDiff_abs:
  assumes "- pi \<le> cur" "cur \<le> pi" "- (3 * pi / 2) \<le> t" "t \<le> 3 * pi / 2"
  shows "\<bar>azimuthDiff t cur\<bar> \<le> pi"
proof -
  consider "pi < t - cur" | "t - cur < - pi" | "- pi \<le> t - cur \<and> t - cur \<le> pi"
    by linarith
  then show ?thesis
  proof cases
    case 1
    then have "\<not> t - cur - pi * 2 < - pi" by linarith
    with 1 have "azimuthDiff t cur = t - cur - pi * 2"
      by (simp only: azimuthDiff_def Let_def if_True if_False)
    then show ?thesis using 1 assms by linarith
  next
    case 2
    then have "\<not> pi < t - cur" using pi_gt_zero by linarith
    with 2 have "azimuthDiff t cur = t - cur + pi * 2"
      by (simp only: azimuthDiff_def Let_def if_True if_False)
    then show ?thesis using 2 assms by linarith
  next
    case 3
    then have "\<not> pi < t - cur" "\<not> t - cur < - pi" by linarith+
    then have "azimuthDiff t cur = t - cur"
      by (simp only: azimuthDiff_def Let_def if_True if_False)
    then show ?thesis using 3 by linarith
  qed
qed

lemma azimuthDiff_example: "azimuthDiff (- 3) 3 = 2 * pi - 6"
proof -
  have "\<not> pi < - 3 - 3" using pi_gt_zero by linarith
  moreover have "(- 3::real) - 3 < - pi" using pi_less_4 by linarith
  ultimately have "azimuthDiff (- 3) 3 = - 3 - 3 + pi * 2"
    by (simp only: azimuthDiff_def Let_def if_True if_False)
  then show ?thesis by simp
qed

lemma frame_azimuth_range:
  assumes "- pi \<le> azimuthalAngle c \<and> azimuthalAngle c \<le> pi"
    and "Experience_useFrame (Some c) h s delta = Some c'"
  shows "- pi \<le> azimuthalAngle c' \<and> azimuthalAngle c' \<le> pi"
proof (cases "detected h")
  case True
  then obtain k where "c' = controls_update k"
    using assms(2) by (auto simp: Experience_useFrame_def Let_def)
  then show ?thesis using update_azimuth_range by simp
next
  case False
  then have "c' = c" using assms(2) by (simp add: Experience_useFrame_def)
  then show ?thesis using assms(1) by simp
qed

lemma run_azimuth_range:
  "- pi \<le> azimuthalAngle c \<and> azimuthalAngle c \<le> pi \<Longrightarrow>
     cameraRun (Some c) fs = Some c' \<Longrightarrow>
     - pi \<le> azimuthalAngle c' \<and> azimuthalAngle c' \<le> pi"
proof (induction fs arbitrary: c)
  case Nil
  then show ?case by simp
next
  case (Cons f fs)
  obtain h s delta where f: "f = (h, s, delta)" by (cases f) auto
  obtain c1 where c1: "Experience_useFrame (Some c) h s delta = Some c1"
    using frame_Some by blast
  have "- pi \<le> azimuthalAngle c1 \<and> azimuthalAngle c1 \<le> pi"
    using Cons.prems(1) c1 by (rule frame_azimuth_range)
  moreover have "cameraRun (Some c1) fs = Some c'" using Cons.prems(2) f c1 by simp
  ultimately show ?case by (rule Cons.IH)
qed

lemma start_update_azimuth: "azimuthalAngle (controls_update startControls) = 0"
proof -
  have "setFromCartesianCoords 0 0 20 = (20, arccos 0, 0)"
    by (simp add: setFromCartesianCoords_def Let_def atan2_def)
  then show ?thesis by (simp add: controls_update_def startControls_def Let_def)
qed

lemma azimuthDiff_from_start: "azimuthDiff (targetAzimuth 0) 0 = pi / 2"
proof -
  have t: "targetAzimuth 0 = - (3 * pi / 2)" by (simp add: targetAzimuth_def)
  have "\<not> pi < - (3 * pi / 2) - 0" using pi_gt_zero by linarith
  moreover have "- (3 * pi / 2) - 0 < - pi" using pi_gt_zero by linarith
  ultimately have "azimuthDiff (- (3 * pi / 2)) 0 = - (3 * pi / 2) - 0 + pi * 2"
    by (simp only: azimuthDiff_def Let_def if_True if_False)
  then show ?thesis using t by simp
qed

text \<open>
  C3. The current azimuth of a frame is the one the controls report after their last
  update, here after any run of frames; the target comes from \<open>x\<close> in \<open>[0, 1]\<close>; the
  delta is a time step, so it is not negative, and \<open>delta * lerpSpeed \<le> 1\<close>. Then the
  change applied to the azimuth in the frame, the wrapped difference times
  \<open>delta * lerpSpeed\<close>, is at most \<open>pi\<close> in magnitude. For the current azimuth \<open>3\<close> and
  the target \<open>- 3\<close> the wrapped difference is \<open>2 * pi - 6\<close>, within a thousandth of
  \<open>0.283\<close>.
\<close>

theorem azimuth_step_at_most_pi:
  assumes "cameraRun (Some (controls_update c0)) fs = Some c"
    and "0 \<le> x" "x \<le> 1"
    and "0 \<le> delta" "delta * lerpSpeed \<le> 1"
  shows "\<bar>azimuthDiff (targetAzimuth x) (azimuthalAngle c) * delta * lerpSpeed\<bar> \<le> pi
       \<and> newAzimuth (azimuthalAngle c) x delta - azimuthalAngle c
            = azimuthDiff (targetAzimuth x) (azimuthalAngle c) * delta * lerpSpeed
       \<and> azimuthDiff (- 3) 3 = 2 * pi - 6
       \<and> \<bar>azimuthDiff (- 3) 3 - 283 / 1000\<bar> < 1 / 1000"
proof -
  let ?d = "azimuthDiff (targetAzimuth x) (azimuthalAngle c)"
  have r: "- pi \<le> azimuthalAngle c \<and> azimuthalAngle c \<le> pi"
    using update_azimuth_range [of c0] assms(1) by (rule run_azimuth_range)
  have d: "\<bar>?d\<bar> \<le> pi"
    using azimuthDiff_abs [of "azimuthalAngle c" "targetAzimuth x"] r
      targetAzimuth_range [OF assms(2,3)] by simp
  have k: "0 \<le> delta * lerpSpeed" using assms(4) by (simp add: lerpSpeed_def)
  have "\<bar>?d * (delta * lerpSpeed)\<bar> = \<bar>?d\<bar> * \<bar>delta * lerpSpeed\<bar>"
    by (rule abs_mult)
  then have "\<bar>?d * delta * lerpSpeed\<bar> = \<bar>?d\<bar> * (delta * lerpSpeed)"
    by (simp only: mult.assoc abs_of_nonneg [OF k])
  also have "\<dots> \<le> \<bar>?d\<bar> * 1"
    using assms(5) by (intro mult_left_mono) auto
  finally have 1: "\<bar>?d * delta * lerpSpeed\<bar> \<le> pi" using d by simp
  have 2: "\<bar>azimuthDiff (- 3) 3 - 283 / 1000\<bar> < 1 / 1000"
    unfolding azimuthDiff_example using pi_upper pi_lower by linarith
  show ?thesis using 1 2 azimuthDiff_example by (simp add: newAzimuth_def)
qed

theorem azimuth_step_at_most_pi_witness:
  "cameraRun (Some (controls_update startControls)) [] = Some (controls_update startControls)
   \<and> (0::real) \<le> 0 \<and> (0::real) \<le> 1 \<and> (0::real) \<le> 1 / 8 \<and> 1 / 8 * lerpSpeed \<le> 1
   \<and> azimuthalAngle (controls_update startControls) = 0
   \<and> azimuthDiff (targetAzimuth 0) (azimuthalAngle (controls_update startControls)) = pi / 2
   \<and> \<bar>azimuthDiff (targetAzimuth 0) (azimuthalAngle (controls_update startControls))
        * (1 / 8) * lerpSpeed\<bar> \<le> pi"
proof -
  have r: "cameraRun (Some (controls_update startControls)) [] = Some (controls_update startControls)"
    by simp
  have k: "(0::real) \<le> 1 / 8" "1 / 8 * lerpSpeed \<le> 1" by (simp_all add: lerpSpeed_def)
  have z: "(0::real) \<le> 0" "(0::real) \<le> 1" by simp_all
  have t: "\<bar>azimuthDiff (targetAzimuth 0) (azimuthalAngle (controls_update startControls))
        * (1 / 8) * lerpSpeed\<bar> \<le> pi"
    using azimuth_step_at_most_pi [OF r z k] by (rule conjunct1)
  have v: "azimuthDiff (targetAzimuth 0) (azimuthalAngle (controls_update startControls)) = pi / 2"
    by (simp only: start_update_azimuth azimuthDiff_from_start)
  show ?thesis using r z k start_update_azimuth v t by blast
qed

section \<open>The ranges of the polar angle, the distance and the scale\<close>







text \<open>
  The eased values themselves stay in these ranges when \<open>0 \<le> delta\<close> and
  \<open>delta * lerpSpeed \<le> 1\<close>, since the targets are clamped. For a larger delta they can
  leave them, as for \<open>delta = 1/4\<close> below, and it is the update at the end of the frame
  that brings the camera back into the ranges.
\<close>

lemma ease_between:
  fixes c t k lo hi :: real
  assumes "lo \<le> c" "c \<le> hi" "lo \<le> t" "t \<le> hi" "0 \<le> k" "k \<le> 1"
  shows "lo \<le> c + (t - c) * k \<and> c + (t - c) * k \<le> hi"
proof -
  have e: "c + (t - c) * k = (1 - k) * c + k * t" by (simp add: algebra_simps)
  have "(1 - k) * lo + k * lo \<le> (1 - k) * c + k * t"
    using assms by (intro add_mono mult_left_mono) auto
  moreover have "(1 - k) * c + k * t \<le> (1 - k) * hi + k * hi"
    using assms by (intro add_mono mult_left_mono) auto
  ultimately show ?thesis unfolding e by (simp add: algebra_simps)
qed

lemma newPolar_bounds:
  assumes "minPolar \<le> p" "p \<le> maxPolar" "0 \<le> delta" "delta * lerpSpeed \<le> 1"
  shows "minPolar \<le> newPolar p y delta \<and> newPolar p y delta \<le> maxPolar"
proof -
  have k: "0 \<le> delta * lerpSpeed" using assms by (simp add: lerpSpeed_def)
  have "newPolar p y delta = p + (targetPolar y - p) * (delta * lerpSpeed)"
    by (simp add: newPolar_def)
  then show ?thesis
    using ease_between [OF assms(1,2) _ _ k assms(4), of "targetPolar y"] targetPolar_bounds [of y]
    by simp
qed

lemma newDistance_bounds:
  assumes "minDistance \<le> d" "d \<le> maxDistance" "0 \<le> delta" "delta * lerpSpeed \<le> 1"
  shows "minDistance \<le> newDistance d s delta \<and> newDistance d s delta \<le> maxDistance"
proof -
  have k: "0 \<le> delta * distanceLerpSpeed" "delta * distanceLerpSpeed \<le> 1"
    using assms by (simp_all add: lerpSpeed_def distanceLerpSpeed_def)
  have "newDistance d s delta = d + (targetDistance s - d) * (delta * distanceLerpSpeed)"
    by (simp add: newDistance_def)
  then show ?thesis
    using ease_between [OF assms(1,2) _ _ k, of "targetDistance s"] targetDistance_bounds [of s]
    by simp
qed

lemma eased_values_can_overshoot:
  "maxPolar < newPolar (pi / 4) 1 (1 / 4) \<and> newDistance 30 2.5 (1 / 4) < minDistance"
  using pi_gt_zero
  by (simp add: newPolar_def newDistance_def targetPolar_def clampedY_def adjustedY_def
      minPolar_def maxPolar_def lerpSpeed_def distanceLerpSpeed_def targetDistance_def
      normalizedScale_def minDistance_def maxDistance_def)

section \<open>The placement generator\<close>

lemma photoLoop_map:
  "photoLoop ps rnd i data = data @ map (photoRecord ps rnd) [i..<length ps]"
proof (induction ps rnd i data rule: photoLoop.induct)
  case (1 ps rnd i data)
  show ?case
  proof (cases "i < length ps")
    case True
    then show ?thesis using 1 by (subst photoLoop.simps) (simp add: upt_conv_Cons)
  next
    case False
    then show ?thesis by (subst photoLoop.simps) simp
  qed
qed

lemma photoData_map: "photoData ps rnd = map (photoRecord ps rnd) [0..<length ps]"
  by (simp add: photoData_def photoLoop_map)

lemma photoData_nth: "i < length ps \<Longrightarrow> photoData ps rnd ! i = photoRecord ps rnd i"
  by (simp add: photoData_map)

text \<open>
  C6. The generator returns as many records as there are photos, each with its id,
  url, chaos position, formed position and speed; for no photos it returns the empty
  list.
\<close>

theorem generator_count:
  "length (photoData uploadedPhotos rnd) = length uploadedPhotos
   \<and> photoData [] rnd = []
   \<and> photoData uploadedPhotos rnd =
       map (\<lambda>i. \<lparr>photo_id = i, url = uploadedPhotos ! i,
                  chaosPos = scatteredPos rnd i (length uploadedPhotos),
                  targetPos = formedPos i (length uploadedPhotos),
                  speed = 0.8 + rnd (3 * i + 2) * 1.5\<rparr>)
           [0..<length uploadedPhotos]"
  by (simp add: photoData_map photoRecord_def Let_def)

text \<open>
  C10. The record at index \<open>i\<close> has the id \<open>i\<close> and the url of the photo at index \<open>i\<close>:
  the generator keeps the order of the photos and their pairing with the placards.
\<close>

theorem generator_keeps_order:
  "i < length uploadedPhotos \<Longrightarrow>
     photo_id (photoData uploadedPhotos rnd ! i) = i
     \<and> url (photoData uploadedPhotos rnd ! i) = uploadedPhotos ! i"
  by (simp add: photoData_nth photoRecord_def Let_def)

theorem generator_keeps_order_witness:
  "1 < length [''/photos/1.jpg'', ''/photos/2.jpg'']
   \<and> photo_id (photoData [''/photos/1.jpg'', ''/photos/2.jpg''] (\<lambda>n. 1 / 2) ! 1) = 1
   \<and> url (photoData [''/photos/1.jpg'', ''/photos/2.jpg''] (\<lambda>n. 1 / 2) ! 1) = ''/photos/2.jpg''"
  using generator_keeps_order [of 1 "[''/photos/1.jpg'', ''/photos/2.jpg'']" "\<lambda>n. 1 / 2"]
  by simp

text \<open>
  C5. The formed position of placard \<open>i\<close> of \<open>count\<close> has the normalized height
  \<open>h = 0.2 + (i / count) * 0.6\<close>, scaled by the height \<open>9\<close>, the radius
  \<open>r = 5 * (1 - h) + 0.8\<close> and the angle \<open>i * 2.39996\<close>; for a single photo it is
  \<open>(4.8, 1.8, 0)\<close>, that is \<open>h = 0.2\<close>, \<open>r = 5 * 0.8 + 0.8\<close> and the angle \<open>0\<close>.
\<close>

theorem formed_placement_formula:
  "i < length uploadedPhotos \<Longrightarrow>
     targetPos (photoData uploadedPhotos rnd ! i) =
       (let count = length uploadedPhotos;
            h = 0.2 + (real i / real count) * 0.6;
            r = 5 * (1 - h) + 0.8;
            th = real i * 2.39996
        in Vector3 (r * cos th) (h * 9) (r * sin th))
     \<and> targetPos (photoData [u] rnd ! 0) = Vector3 4.8 1.8 0"
  by (simp add: photoData_nth photoRecord_def Let_def formedPos_def r_formed_def y_formed_def
      yNorm_def theta_def height_def maxRadius_def)

theorem formed_placement_formula_witness:
  "(1::nat) < length [''/photos/1.jpg'', ''/photos/2.jpg'']
   \<and> targetPos (photoData [''/photos/1.jpg'', ''/photos/2.jpg''] (\<lambda>n. 1 / 2) ! 1) =
        Vector3 (3.3 * cos 2.39996) 4.5 (3.3 * sin 2.39996)
   \<and> targetPos (photoData [''/photos/1.jpg''] (\<lambda>n. 1 / 2) ! 0) = Vector3 4.8 1.8 0"
  using formed_placement_formula [of 1 "[''/photos/1.jpg'', ''/photos/2.jpg'']" "\<lambda>n. 1 / 2" "''/photos/1.jpg''"]
  by (simp add: Let_def)

lemma yNorm_inj: "0 < count \<Longrightarrow> yNorm i count = yNorm j count \<Longrightarrow> i = j"
  by (simp add: yNorm_def)

text \<open>
  C7. Two placards with different indices have different formed positions, and their
  pairs of radius and angle differ.
\<close>

theorem formed_positions_unique:
  "i < length uploadedPhotos \<Longrightarrow> j < length uploadedPhotos \<Longrightarrow> i \<noteq> j \<Longrightarrow>
     targetPos (photoData uploadedPhotos rnd ! i) \<noteq> targetPos (photoData uploadedPhotos rnd ! j)
     \<and> (r_formed i (length uploadedPhotos), theta i) \<noteq> (r_formed j (length uploadedPhotos), theta j)"
proof -
  assume a: "i < length uploadedPhotos" "j < length uploadedPhotos" "i \<noteq> j"
  then have "0 < length uploadedPhotos" by linarith
  then have n: "yNorm i (length uploadedPhotos) \<noteq> yNorm j (length uploadedPhotos)"
    using yNorm_inj [of "length uploadedPhotos" i j] a(3) by blast
  then have "y_formed i (length uploadedPhotos) \<noteq> y_formed j (length uploadedPhotos)"
    by (simp add: y_formed_def height_def)
  moreover have "theta i \<noteq> theta j" using a(3) by (simp add: theta_def)
  ultimately show ?thesis
    using a by (simp add: photoData_nth photoRecord_def Let_def formedPos_def)
qed

theorem formed_positions_unique_witness:
  "(0::nat) < length [''/photos/1.jpg'', ''/photos/2.jpg'']
   \<and> (1::nat) < length [''/photos/1.jpg'', ''/photos/2.jpg''] \<and> (0::nat) \<noteq> 1
   \<and> targetPos (photoData [''/photos/1.jpg'', ''/photos/2.jpg''] (\<lambda>n. 1 / 2) ! 0)
       \<noteq> targetPos (photoData [''/photos/1.jpg'', ''/photos/2.jpg''] (\<lambda>n. 1 / 2) ! 1)
   \<and> (r_formed 0 2, theta 0) \<noteq> (r_formed 1 2, theta 1)"
  using formed_positions_unique [of 0 "[''/photos/1.jpg'', ''/photos/2.jpg'']" 1 "\<lambda>n. 1 / 2"]
  by (simp add: theta_def)

section \<open>Convergence of a placard\<close>

lemma distanceTo_lerp: "distanceTo (lerp p t alpha) t = \<bar>1 - alpha\<bar> * distanceTo p t"
proof -
  have "(vx p + (vx t - vx p) * alpha - vx t)\<^sup>2 + (vy p + (vy t - vy p) * alpha - vy t)\<^sup>2
        + (vz p + (vz t - vz p) * alpha - vz t)\<^sup>2
      = (1 - alpha)\<^sup>2 * ((vx p - vx t)\<^sup>2 + (vy p - vy t)\<^sup>2 + (vz p - vz t)\<^sup>2)"
    by (simp add: power2_eq_square algebra_simps)
  then show ?thesis
    by (simp add: distanceTo_def lerp_def real_sqrt_mult)
qed

lemma distanceTo_nonneg: "0 \<le> distanceTo p q"
  by (simp add: distanceTo_def)

lemma frame_distance:
  "PolaroidItem_useFrame data mode handScale delta (Some g) = Some g' \<Longrightarrow>
     distanceTo (group_position g') (selectedTarget data mode)
       = \<bar>1 - delta * speed data\<bar> * distanceTo (group_position g) (selectedTarget data mode)"
  by (auto simp: PolaroidItem_useFrame_def Let_def selectedTarget_def distanceTo_lerp)

lemma placard_frame_Some:
  "\<exists>g'. PolaroidItem_useFrame data mode handScale delta (Some g) = Some g'"
  by (simp add: PolaroidItem_useFrame_def Let_def)

lemma contraction_factor:
  fixes a b t :: real
  assumes "a \<le> t" "t \<le> b"
  shows "\<bar>1 - t\<bar> \<le> max \<bar>1 - a\<bar> \<bar>1 - b\<bar>"
  using assms by (simp add: max_def abs_if)

lemma placardRun_contracts:
  assumes "\<forall>delta \<in> set ds. \<bar>1 - delta * speed data\<bar> \<le> q" "0 \<le> q"
  shows "\<exists>g'. placardRun data mode handScale (Some g) ds = Some g'
           \<and> distanceTo (group_position g') (selectedTarget data mode)
               \<le> q ^ length ds * distanceTo (group_position g) (selectedTarget data mode)"
  using assms(1)
proof (induction ds arbitrary: g)
  case Nil
  then show ?case by simp
next
  case (Cons delta ds)
  obtain g1 where g1: "PolaroidItem_useFrame data mode handScale delta (Some g) = Some g1"
    using placard_frame_Some by blast
  have d1: "distanceTo (group_position g1) (selectedTarget data mode)
      \<le> q * distanceTo (group_position g) (selectedTarget data mode)"
    unfolding frame_distance [OF g1]
    using Cons.prems distanceTo_nonneg by (intro mult_right_mono) auto
  obtain g' where g': "placardRun data mode handScale (Some g1) ds = Some g'"
     and d': "distanceTo (group_position g') (selectedTarget data mode)
               \<le> q ^ length ds * distanceTo (group_position g1) (selectedTarget data mode)"
    using Cons.IH [of g1] Cons.prems by auto
  have "q ^ length ds * distanceTo (group_position g1) (selectedTarget data mode)
      \<le> q ^ length ds * (q * distanceTo (group_position g) (selectedTarget data mode))"
    using d1 assms(2) by (intro mult_left_mono) auto
  then show ?case using g1 g' d' by (simp add: mult.assoc [symmetric] mult.commute)
qed

lemma samplePhoto_fields:
  "targetPos samplePhoto = Vector3 4.8 1.8 0" "speed samplePhoto = 2"
  by (simp_all add: samplePhoto_def photoData_nth photoRecord_def Let_def formedPos_def
      r_formed_def y_formed_def yNorm_def theta_def height_def maxRadius_def)

lemma sample_frame:
  "PolaroidItem_useFrame samplePhoto FORMED 1 1 (Some (sampleGroup s)) = Some (sampleGroup (- s))"
  by (simp add: PolaroidItem_useFrame_def Let_def samplePhoto_fields sampleGroup_def lerp_def)

lemma sample_run:
  "\<exists>s'. placardRun samplePhoto FORMED 1 (Some (sampleGroup s)) (replicate n 1) = Some (sampleGroup s')
     \<and> \<bar>s'\<bar> = \<bar>s\<bar>"
proof (induction n arbitrary: s)
  case 0
  show ?case by (rule exI [of _ s]) simp
next
  case (Suc n)
  show ?case using Suc [of "- s"] by (simp add: sample_frame)
qed

lemma sample_distance: "distanceTo (group_position (sampleGroup s)) (targetPos samplePhoto) = \<bar>s\<bar>"
  by (simp add: distanceTo_def sampleGroup_def samplePhoto_fields)

text \<open>
  C8, as the code has it. With the mode held fixed, if in every frame the product
  \<open>delta * speed\<close> lies in a band \<open>[a, b]\<close> with \<open>0 < a \<le> b < 2\<close>, then for every placard,
  every \<open>eps > 0\<close> and every initial position there is a number of frames after which
  the position is within \<open>eps\<close> of the target position that the mode selects.
\<close>

theorem placard_converges:
  assumes "0 < a" "a \<le> b" "b < 2" "0 < eps"
  shows "\<exists>N. \<forall>ds. N \<le> length ds
            \<and> (\<forall>delta \<in> set ds. a \<le> delta * speed data \<and> delta * speed data \<le> b)
          \<longrightarrow> (\<exists>g'. placardRun data mode handScale (Some g) ds = Some g'
                \<and> distanceTo (group_position g')
                     (if mode = FORMED then targetPos data else chaosPos data) < eps)"
proof -
  define q where "q = max \<bar>1 - a\<bar> \<bar>1 - b\<bar>"
  define D where "D = distanceTo (group_position g) (selectedTarget data mode)"
  have q: "0 \<le> q" "q < 1" using assms by (auto simp: q_def max_def abs_if)
  have D: "0 \<le> D" by (simp add: D_def distanceTo_nonneg)
  have "0 < eps / (D + 1)" using assms(4) D by simp
  then obtain N where N: "q ^ N < eps / (D + 1)"
    using real_arch_pow_inv [OF _ q(2)] by blast
  have small: "q ^ n * D < eps" if "N \<le> n" for n
  proof -
    have "q ^ n \<le> q ^ N" using that q by (intro power_decreasing) auto
    then have "q ^ n * D \<le> q ^ N * D" using D by (intro mult_right_mono) auto
    also have "\<dots> \<le> q ^ N * (D + 1)" using q by (intro mult_left_mono) auto
    also have "\<dots> < eps" using N D by (simp add: pos_less_divide_eq)
    finally show ?thesis .
  qed
  have "\<exists>g'. placardRun data mode handScale (Some g) ds = Some g'
          \<and> distanceTo (group_position g') (selectedTarget data mode) < eps"
    if len: "N \<le> length ds"
      and bd: "\<forall>delta \<in> set ds. a \<le> delta * speed data \<and> delta * speed data \<le> b" for ds
  proof -
    have "\<forall>delta \<in> set ds. \<bar>1 - delta * speed data\<bar> \<le> q"
      using bd contraction_factor unfolding q_def by blast
    then obtain g' where g': "placardRun data mode handScale (Some g) ds = Some g'"
      and "distanceTo (group_position g') (selectedTarget data mode) \<le> q ^ length ds * D"
      unfolding D_def using placardRun_contracts [OF _ q(1)] by blast
    then show ?thesis using small [OF len] by auto
  qed
  then show ?thesis unfolding selectedTarget_def by blast
qed

theorem placard_converges_witness:
  "(0::real) < 1 \<and> (1::real) \<le> 1 \<and> (1::real) < 2 \<and> (0::real) < 1 / 100
   \<and> (\<exists>N. \<forall>ds. N \<le> length ds
            \<and> (\<forall>delta \<in> set ds. 1 \<le> delta * speed samplePhoto \<and> delta * speed samplePhoto \<le> 1)
          \<longrightarrow> (\<exists>g'. placardRun samplePhoto FORMED 1 (Some (sampleGroup 1)) ds = Some g'
                \<and> distanceTo (group_position g') (targetPos samplePhoto) < 1 / 100))
   \<and> placardRun samplePhoto FORMED 1 (Some (sampleGroup 1)) [1 / 2] = Some (sampleGroup 0)
   \<and> distanceTo (group_position (sampleGroup 0)) (targetPos samplePhoto) = 0"
  using placard_converges [of 1 1 "1 / 100" samplePhoto FORMED 1 "sampleGroup 1"]
  by (simp add: PolaroidItem_useFrame_def Let_def samplePhoto_fields sampleGroup_def lerp_def
      distanceTo_def)

text \<open>
  With one frame per second and the speed \<open>2\<close> the step factor is \<open>2\<close>: each frame
  mirrors the placard at its target, so it stays at its initial distance \<open>1\<close> for ever.
\<close>

theorem placard_oscillates_counterexample:
  "\<not> (\<exists>N. \<forall>n\<ge>N. \<exists>g'. placardRun samplePhoto FORMED 1 (Some (sampleGroup 1)) (replicate n 1) = Some g'
           \<and> distanceTo (group_position g') (targetPos samplePhoto) < 1 / 2)"
proof
  assume "\<exists>N. \<forall>n\<ge>N. \<exists>g'. placardRun samplePhoto FORMED 1 (Some (sampleGroup 1)) (replicate n 1) = Some g'
           \<and> distanceTo (group_position g') (targetPos samplePhoto) < 1 / 2"
  then obtain N g' where g': "placardRun samplePhoto FORMED 1 (Some (sampleGroup 1)) (replicate N 1) = Some g'"
    and lt: "distanceTo (group_position g') (targetPos samplePhoto) < 1 / 2"
    by blast
  obtain s' where "placardRun samplePhoto FORMED 1 (Some (sampleGroup 1)) (replicate N 1) = Some (sampleGroup s')"
    and "\<bar>s'\<bar> = \<bar>1::real\<bar>"
    using sample_run [of 1 N] by blast
  then show False using g' lt by (simp add: sample_distance)
qed

end
